theory Spec2Isabelle
  imports Complex_Main "HOL-Library.Sublist"
begin

section \<open>Python strings\<close>

text \<open>
  A Python \<open>str\<close> is modelled as a \<^typ>\<open>string\<close>: a list of characters, each
  \<^typ>\<open>char\<close> standing for one code point in the range 0..255. On that range
  \<open>str.isspace\<close>, \<open>str.lower\<close> and \<open>str.strip\<close> act as defined below; code points
  beyond 255 are outside the model.
\<close>

definition isspace :: "char \<Rightarrow> bool" where
  "isspace c =
     (let n = (of_char c :: nat)
      in (9 \<le> n \<and> n \<le> 13) \<or> (28 \<le> n \<and> n \<le> 32) \<or> n = 133 \<or> n = 160)"

definition lower_char :: "char \<Rightarrow> char" where
  "lower_char c =
     (let n = (of_char c :: nat)
      in if (65 \<le> n \<and> n \<le> 90) \<or> (192 \<le> n \<and> n \<le> 214) \<or> (216 \<le> n \<and> n \<le> 222)
         then char_of (n + 32) else c)"

definition lower :: "string \<Rightarrow> string" where
  "lower s = map lower_char s"

definition strip :: "string \<Rightarrow> string" where
  "strip s = rev (dropWhile isspace (rev (dropWhile isspace s)))"

text \<open>\<open>kw in s\<close> on strings: \<open>kw\<close> occurs in \<open>s\<close> as a contiguous substring.\<close>

fun py_in :: "string \<Rightarrow> string \<Rightarrow> bool" where
  "py_in kw [] = (kw = [])"
| "py_in kw (c # cs) = (prefix kw (c # cs) \<or> py_in kw cs)"

text \<open>\<open>sep.join(xs)\<close>.\<close>

fun join :: "string \<Rightarrow> string list \<Rightarrow> string" where
  "join sep [] = []"
| "join sep [x] = x"
| "join sep (x # y # ys) = x @ sep @ join sep (y # ys)"

text \<open>\<open>str(n)\<close> for a non-negative integer: its decimal digits.\<close>

definition digit_char :: "nat \<Rightarrow> char" where
  "digit_char d = char_of (48 + d)"

fun str_nat :: "nat \<Rightarrow> string" where
  "str_nat n = (if n < 10 then [digit_char n] else str_nat (n div 10) @ [digit_char (n mod 10)])"

declare str_nat.simps [simp del]

text \<open>
  The format specification \<open>.df\<close> (here \<open>.2f\<close> and \<open>.3f\<close>) prints the decimal
  numeral with \<open>d\<close> fractional digits nearest to the exact value of its argument, a tie
  going to the even last digit. A float is modelled by the rational number it stands for.
\<close>

definition round_half_even :: "rat \<Rightarrow> int" where
  "round_half_even q =
     (let f = \<lfloor>q\<rfloor>; r = q - of_int f
      in if r < 1 / 2 then f else if 1 / 2 < r then f + 1 else if even f then f else f + 1)"

fun zero_pad :: "nat \<Rightarrow> string \<Rightarrow> string" where
  "zero_pad d s = replicate (d - length s) (CHR ''0'') @ s"

definition format_f :: "nat \<Rightarrow> rat \<Rightarrow> string" where
  "format_f d q =
     (let n = nat (round_half_even (\<bar>q\<bar> * 10 ^ d));
          body = str_nat (n div 10 ^ d) @ ''.'' @ zero_pad d (str_nat (n mod 10 ^ d))
      in if q < 0 then ''-'' @ body else body)"

section \<open>The toolkit: text widgets and message boxes\<close>

text \<open>
  A Tk text widget holds its text and a state. While the state is \<open>DISABLED\<close> the
  widget ignores \<open>insert\<close> and \<open>delete\<close> (and the user's typing); \<open>get(1.0, END)\<close>
  returns the text followed by the newline that Tk keeps at the end of every text widget.
\<close>

datatype widget_state = NORMAL | DISABLED

record text_widget =
  contents :: string
  wstate :: widget_state

definition config_state :: "text_widget \<Rightarrow> widget_state \<Rightarrow> text_widget" where
  "config_state w st = w\<lparr>wstate := st\<rparr>"

definition delete_all :: "text_widget \<Rightarrow> text_widget" where
  "delete_all w = (if wstate w = DISABLED then w else w\<lparr>contents := []\<rparr>)"

definition insert_end :: "text_widget \<Rightarrow> string \<Rightarrow> text_widget" where
  "insert_end w s = (if wstate w = DISABLED then w else w\<lparr>contents := contents w @ s\<rparr>)"

definition get_all :: "text_widget \<Rightarrow> string" where
  "get_all w = contents w @ ''\<newline>''"

text \<open>A message box call, with its title and its message.\<close>

datatype dialog =
  ShowWarning string string
| ShowError string string
| ShowInfo string string

section \<open>The external pipelines\<close>

text \<open>
  The NER and the fill-mask pipelines are black boxes: a call returns the list of
  predictions, or raises an exception \<open>e\<close>, which is \<open>Inl\<close> of \<open>str(e)\<close>. Every
  prediction carries the keys the handlers read, so the formatting loops do not raise.
  A score is a float, modelled by the rational number it stands for.
\<close>

record entity =
  entity_group :: string
  word :: string
  score :: rat

record mask_prediction =
  pred_sequence :: string
  pred_score :: rat
  token_str :: string

datatype pipeline_call = CallNer string | CallMaskFiller string

section \<open>The application object\<close>

text \<open>
  An attribute of the object exists only once it has been assigned; reading a missing
  attribute raises \<open>AttributeError\<close>, whose message is \<open>attribute_error\<close> of its name.
\<close>

datatype 'a attribute = Missing | Assigned 'a

definition attribute_error :: "string \<Rightarrow> string" where
  "attribute_error attr =
     [CHR 0x27] @ ''ModernNLPApp'' @ [CHR 0x27] @ '' object has no attribute ''
       @ [CHR 0x27] @ attr @ [CHR 0x27]"

text \<open>
  The fields of \<open>ModernNLPApp\<close> that the handlers read and write, the log of the
  message boxes shown (oldest first) and the log of the pipeline calls made.
  \<open>init_models\<close> assigns \<open>image_gen\<close> last, so the attribute is \<open>Missing\<close> when an
  earlier pipeline failed to load; once assigned it is \<open>None\<close> when no text-to-image
  pipeline was loaded. An exception that leaves a handler is caught by Tk's callback
  wrapper, which reports it and lets the event loop go on: \<open>callback_errors\<close> is the log
  of the messages of those exceptions.
\<close>

record app =
  env_text_input :: text_widget
  image_prompt_input :: text_widget
  ner_text_input :: text_widget
  mask_text_input :: text_widget
  env_results :: text_widget
  ner_results :: text_widget
  mask_results :: text_widget
  image_label :: string
  ner :: "string \<Rightarrow> string + entity list"
  mask_filler :: "string \<Rightarrow> string + mask_prediction list"
  image_gen :: "unit option attribute"
  dialogs :: "dialog list"
  pipeline_calls :: "pipeline_call list"
  callback_errors :: "string list"

definition showwarning :: "string \<Rightarrow> string \<Rightarrow> app \<Rightarrow> app" where
  "showwarning title msg self = self\<lparr>dialogs := dialogs self @ [ShowWarning title msg]\<rparr>"

definition showerror :: "string \<Rightarrow> string \<Rightarrow> app \<Rightarrow> app" where
  "showerror title msg self = self\<lparr>dialogs := dialogs self @ [ShowError title msg]\<rparr>"

definition showinfo :: "string \<Rightarrow> string \<Rightarrow> app \<Rightarrow> app" where
  "showinfo title msg self = self\<lparr>dialogs := dialogs self @ [ShowInfo title msg]\<rparr>"

section \<open>nlp\_project.py\<close>

subsection \<open>update\_results\<close>

definition update_results :: "text_widget \<Rightarrow> string \<Rightarrow> text_widget" where
  "update_results text_widget content =
     (let w1 = config_state text_widget NORMAL;
          w2 = delete_all w1;
          w3 = insert_end w2 content
      in config_state w3 DISABLED)"

subsection \<open>classify\_environment\<close>

definition keywords_list :: "string list" where
  "keywords_list =
     [''climate'', ''pollution'', ''earth'', ''global warming'',
      ''deforestation'', ''recycle'', ''environment'', ''sustainability'',
      ''carbon'', ''emissions'', ''renewable'', ''biodiversity'']"

text \<open>\<open>sum(1 for kw in keywords if kw in text.lower())\<close>\<close>

definition keyword_score :: "string \<Rightarrow> nat" where
  "keyword_score txt = sum_list (map (\<lambda>kw. 1) (filter (\<lambda>kw. py_in kw (lower txt)) keywords_list))"

text \<open>\<open>[kw for kw in keywords if kw in text.lower()]\<close>\<close>

definition keywords_detected :: "string \<Rightarrow> string list" where
  "keywords_detected txt = filter (\<lambda>kw. py_in kw (lower txt)) keywords_list"

text \<open>
  \<open>min(score / 3, 1.0)\<close>. The quotient is a float in the source and the exact rational
  here; for the scores 0..12 both print the same two decimals (\<open>0.00\<close>, \<open>0.33\<close>,
  \<open>0.67\<close>, \<open>1.00\<close>), and from score 3 on both are exactly 1.
\<close>

definition confidence_of :: "nat \<Rightarrow> rat" where
  "confidence_of sc = min (of_nat sc / 3) 1"

definition classify_result :: "string \<Rightarrow> string" where
  "classify_result txt =
     (let sc = keyword_score txt;
          confidence = confidence_of sc
      in if sc > 0 then
           let label = ''Environment-related'';
               result = ''Classification: '' @ label @ ''\<newline>Confidence: '' @ format_f 2 confidence
                 @ ''\<newline>Keywords found: '' @ str_nat sc @ ''\<newline>\<newline>''
           in result @ ''Environmental keywords detected: '' @ join '', '' (keywords_detected txt)
         else
           let label = ''Not Environment-related''
           in ''Classification: '' @ label @ ''\<newline>Confidence: '' @ format_f 2 (1 - confidence)
                @ ''\<newline>\<newline>No environmental keywords detected.'')"

text \<open>
  The handler. The statements under its \<open>try\<close> are string operations and the render
  call, none of which raises, so the \<open>except\<close> branch has no counterpart here.
\<close>

definition classify_environment :: "app \<Rightarrow> app" where
  "classify_environment self =
     (let txt = strip (get_all (env_text_input self))
      in if txt = [] then showwarning ''Warning'' ''Please enter some text to analyze.'' self
         else self\<lparr>env_results := update_results (env_results self) (classify_result txt)\<rparr>)"

subsection \<open>generate\_image\<close>

text \<open>
  The test \<open>self.image_gen is None\<close> stands before the \<open>try\<close>: with the attribute
  missing it raises \<open>AttributeError\<close> out of the handler, no box is shown and the label
  is not written.
\<close>

definition generate_image :: "app \<Rightarrow> app" where
  "generate_image self =
     (let prompt = strip (get_all (image_prompt_input self))
      in if prompt = [] then showwarning ''Warning'' ''Please enter an image prompt.'' self
         else
           case image_gen self of
             Missing \<Rightarrow>
               self\<lparr>callback_errors := callback_errors self @ [attribute_error ''image_gen'']\<rparr>
           | Assigned None \<Rightarrow>
               showinfo ''Info''
                 ''Image generation model not available. This would generate an image based on your prompt.''
                 self
           | Assigned (Some pipe) \<Rightarrow>
               self\<lparr>image_label := ''Generating image for: '' @ [CHR 0x27] @ prompt @ [CHR 0x27]
                      @ ''\<newline>\<newline>(Image generation requires additional setup)''\<rparr>)"

subsection \<open>extract\_entities\<close>

text \<open>The loop \<open>for i, entity in enumerate(entities, 1): result += ...\<close>\<close>

fun format_entities :: "nat \<Rightarrow> entity list \<Rightarrow> string \<Rightarrow> string" where
  "format_entities i [] result = result"
| "format_entities i (e # es) result =
     format_entities (Suc i) es
       ((result @ str_nat i @ ''. '' @ entity_group e @ '': '' @ word e @ ''\<newline>'')
          @ ''   Confidence: '' @ format_f 3 (score e) @ ''\<newline>\<newline>'')"

definition extract_entities :: "app \<Rightarrow> app" where
  "extract_entities self =
     (let txt = strip (get_all (ner_text_input self))
      in if txt = [] then showwarning ''Warning'' ''Please enter some text to analyze.'' self
         else
           let called = self\<lparr>pipeline_calls := pipeline_calls self @ [CallNer txt]\<rparr>
           in case ner self txt of
                Inl e \<Rightarrow> showerror ''Error'' (''Entity extraction failed: '' @ e) called
              | Inr entities \<Rightarrow>
                  let result =
                        (if entities \<noteq> [] then
                           format_entities 1 entities
                             (''Extracted Entities:\<newline>'' @ concat (replicate 50 ''='')
                                @ ''\<newline>\<newline>'')
                         else ''No named entities found in the text.'')
                  in called\<lparr>ner_results := update_results (ner_results called) result\<rparr>)"

subsection \<open>fill\_mask\<close>

text \<open>The loop \<open>for i, pred in enumerate(predictions, 1): result += ...\<close>\<close>

fun format_predictions :: "nat \<Rightarrow> mask_prediction list \<Rightarrow> string \<Rightarrow> string" where
  "format_predictions i [] result = result"
| "format_predictions i (p # ps) result =
     format_predictions (Suc i) ps
       (((result @ str_nat i @ ''. '' @ pred_sequence p @ ''\<newline>'')
           @ ''   Confidence: '' @ format_f 3 (pred_score p) @ ''\<newline>'')
          @ ''   Token: '' @ token_str p @ ''\<newline>\<newline>'')"

definition fill_mask :: "app \<Rightarrow> app" where
  "fill_mask self =
     (let txt = strip (get_all (mask_text_input self))
      in if txt = [] then showwarning ''Warning'' ''Please enter text with [MASK] tokens.'' self
         else if \<not> py_in ''[MASK]'' txt then
           showwarning ''Warning'' ''Please include [MASK] tokens in your text.'' self
         else
           let called = self\<lparr>pipeline_calls := pipeline_calls self @ [CallMaskFiller txt]\<rparr>
           in case mask_filler self txt of
                Inl e \<Rightarrow> showerror ''Error'' (''Mask filling failed: '' @ e) called
              | Inr predictions \<Rightarrow>
                  let result =
                        format_predictions 1 predictions
                          (''Mask Predictions:\<newline>'' @ concat (replicate 50 ''='')
                             @ ''\<newline>\<newline>'')
                  in called\<lparr>mask_results := update_results (mask_results called) result\<rparr>)"

section \<open>modern\_nlp\_app.py\<close>

text \<open>
  The second file defines the same class again. Its methods are embedded under the
  source's names with the suffix \<open>_modern\<close>; the keyword table, the score, the
  confidence and the two formatting loops are the same expressions in both files.
\<close>

definition update_results_modern :: "text_widget \<Rightarrow> string \<Rightarrow> text_widget" where
  "update_results_modern text_widget content =
     (let w1 = config_state text_widget NORMAL;
          w2 = delete_all w1;
          w3 = insert_end w2 content
      in config_state w3 DISABLED)"

definition classify_result_modern :: "string \<Rightarrow> string" where
  "classify_result_modern txt =
     (let sc = keyword_score txt;
          confidence = confidence_of sc
      in if sc > 0 then
           let result = ''Classification: Environment-related\<newline>Confidence: ''
                 @ format_f 2 confidence @ ''\<newline>Keywords found: '' @ str_nat sc
                 @ ''\<newline>\<newline>''
           in result @ ''Environmental keywords detected: '' @ join '', '' (keywords_detected txt)
         else
           ''Classification: Not Environment-related\<newline>Confidence: ''
             @ format_f 2 (1 - confidence) @ ''\<newline>\<newline>No environmental keywords detected.'')"

definition classify_environment_modern :: "app \<Rightarrow> app" where
  "classify_environment_modern self =
     (let txt = strip (get_all (env_text_input self))
      in if txt = [] then showwarning ''Warning'' ''Please enter some text to analyze.'' self
         else self\<lparr>env_results :=
                update_results_modern (env_results self) (classify_result_modern txt)\<rparr>)"

definition generate_image_modern :: "app \<Rightarrow> app" where
  "generate_image_modern self =
     (let prompt = strip (get_all (image_prompt_input self))
      in if prompt = [] then showwarning ''Warning'' ''Please enter an image prompt.'' self
         else self\<lparr>image_label := ''Generating image for: '' @ [CHR 0x27] @ prompt @ [CHR 0x27]
                @ ''\<newline>\<newline>(Image generation placeholder)''\<rparr>)"

definition extract_entities_modern :: "app \<Rightarrow> app" where
  "extract_entities_modern self =
     (let txt = strip (get_all (ner_text_input self))
      in if txt = [] then showwarning ''Warning'' ''Please enter some text to analyze.'' self
         else
           let called = self\<lparr>pipeline_calls := pipeline_calls self @ [CallNer txt]\<rparr>
           in case ner self txt of
                Inl e \<Rightarrow> showerror ''Error'' (''Entity extraction failed: '' @ e) called
              | Inr entities \<Rightarrow>
                  let result =
                        (if entities \<noteq> [] then
                           format_entities 1 entities
                             (''Extracted Entities:\<newline>'' @ concat (replicate 50 ''='')
                                @ ''\<newline>\<newline>'')
                         else ''No named entities found in the text.'')
                  in called\<lparr>ner_results := update_results_modern (ner_results called) result\<rparr>)"

definition fill_mask_modern :: "app \<Rightarrow> app" where
  "fill_mask_modern self =
     (let txt = strip (get_all (mask_text_input self))
      in if txt = [] \<or> \<not> py_in ''[MASK]'' txt then
           showwarning ''Warning'' ''Please include [MASK] in your text.'' self
         else
           let called = self\<lparr>pipeline_calls := pipeline_calls self @ [CallMaskFiller txt]\<rparr>
           in case mask_filler self txt of
                Inl e \<Rightarrow> showerror ''Error'' (''Mask filling failed: '' @ e) called
              | Inr predictions \<Rightarrow>
                  let result =
                        format_predictions 1 predictions
                          (''Mask Predictions:\<newline>'' @ concat (replicate 50 ''='')
                             @ ''\<newline>\<newline>'')
                  in called\<lparr>mask_results := update_results_modern (mask_results called) result\<rparr>)"

section \<open>Start-up state and pipeline stand-ins\<close>

text \<open>
  The state when the event loop starts. The widgets are as \<open>create_ui\<close> builds them:
  empty input regions in state \<open>NORMAL\<close>, empty result regions in state \<open>DISABLED\<close>,
  the image label with its initial text. The pipelines and \<open>image_gen\<close> are as
  \<open>init_models\<close> left them; the three logs start empty.
\<close>

definition fresh_app ::
  "(string \<Rightarrow> string + entity list) \<Rightarrow> (string \<Rightarrow> string + mask_prediction list)
     \<Rightarrow> unit option attribute \<Rightarrow> app" where
  "fresh_app ner_pipeline mask_pipeline img =
     \<lparr>env_text_input = \<lparr>contents = [], wstate = NORMAL\<rparr>,
      image_prompt_input = \<lparr>contents = [], wstate = NORMAL\<rparr>,
      ner_text_input = \<lparr>contents = [], wstate = NORMAL\<rparr>,
      mask_text_input = \<lparr>contents = [], wstate = NORMAL\<rparr>,
      env_results = \<lparr>contents = [], wstate = DISABLED\<rparr>,
      ner_results = \<lparr>contents = [], wstate = DISABLED\<rparr>,
      mask_results = \<lparr>contents = [], wstate = DISABLED\<rparr>,
      image_label = ''Generated image will appear here'',
      ner = ner_pipeline,
      mask_filler = mask_pipeline,
      image_gen = img,
      dialogs = [],
      pipeline_calls = [],
      callback_errors = []\<rparr>"

text \<open>
  When \<open>init_models\<close> failed, the attribute of a pipeline is missing and every call of it
  raises \<open>AttributeError\<close>.
\<close>

definition unloaded :: "string \<Rightarrow> string \<Rightarrow> string + 'a" where
  "unloaded attr txt = Inl (attribute_error attr)"

text \<open>A pipeline that answers every text with the same predictions.\<close>

definition answering :: "'a list \<Rightarrow> string \<Rightarrow> string + 'a list" where
  "answering preds txt = Inr preds"

text \<open>The user replaces the text of an input region.\<close>

definition typed :: "string \<Rightarrow> text_widget \<Rightarrow> text_widget" where
  "typed s w = w\<lparr>contents := s\<rparr>"

section \<open>Auxiliary facts\<close>

subsection \<open>Substrings and the keyword table\<close>

lemma py_in_sublist: "py_in kw s \<longleftrightarrow> sublist kw s"
  by (induction s) (simp_all add: sublist_Cons_right)

lemma py_in_iff: "py_in kw s \<longleftrightarrow> (\<exists>ps ss. s = ps @ kw @ ss)"
  by (simp add: py_in_sublist sublist_def)

lemma distinct_keywords_list: "distinct keywords_list"
  by (simp add: keywords_list_def)

lemma length_keywords_list: "length keywords_list = 12"
  by (simp add: keywords_list_def)

lemma sum_list_ones: "sum_list (map (\<lambda>x. Suc 0) xs) = length xs"
  by (induction xs) simp_all

lemma keyword_score_length: "keyword_score txt = length (keywords_detected txt)"
  by (simp add: keyword_score_def keywords_detected_def sum_list_ones)

lemma keyword_score_le: "keyword_score txt \<le> 12"
  unfolding keyword_score_length keywords_detected_def
  using length_filter_le [of "\<lambda>kw. py_in kw (lower txt)" keywords_list]
  by (simp add: length_keywords_list)

lemma set_keywords_detected:
  "set (keywords_detected txt) = {kw \<in> set keywords_list. \<exists>ps ss. lower txt = ps @ kw @ ss}"
  by (simp add: keywords_detected_def py_in_iff)

lemma keyword_score_card:
  "keyword_score txt = card {kw \<in> set keywords_list. \<exists>ps ss. lower txt = ps @ kw @ ss}"
proof -
  have "distinct (keywords_detected txt)"
    by (simp add: keywords_detected_def distinct_keywords_list)
  then have "length (keywords_detected txt) = card (set (keywords_detected txt))"
    by (simp add: distinct_card)
  then show ?thesis
    by (simp add: keyword_score_length set_keywords_detected)
qed

subsection \<open>Lower-casing and trimming\<close>

lemma of_char_shift: "(n::nat) \<le> 222 \<Longrightarrow> (of_char (char_of (n + 32)) :: nat) = n + 32"
  by simp

lemma lower_char_idem: "lower_char (lower_char c) = lower_char c"
  by (simp add: lower_char_def Let_def of_char_shift)

lemma isspace_lower_char: "isspace (lower_char c) = isspace c"
  by (simp add: lower_char_def isspace_def Let_def of_char_shift)

lemma lower_idem: "lower (lower s) = lower s"
  by (simp add: lower_def lower_char_idem)

lemma dropWhile_isspace_lower: "dropWhile isspace (lower s) = lower (dropWhile isspace s)"
  by (simp add: lower_def dropWhile_map comp_def isspace_lower_char)

lemma strip_lower: "strip (lower s) = lower (strip s)"
proof -
  have "rev (lower t) = lower (rev t)" for t
    by (simp add: lower_def rev_map)
  then show ?thesis
    by (simp add: strip_def dropWhile_isspace_lower)
qed

lemma lower_Nil_iff: "lower s = [] \<longleftrightarrow> s = []"
  by (simp add: lower_def)

subsection \<open>Rendering\<close>

lemma update_results_eq: "update_results w c = \<lparr>contents = c, wstate = DISABLED\<rparr>"
  by (simp add: update_results_def config_state_def delete_all_def insert_end_def)

lemma update_results_modern_eq:
  "update_results_modern w c = \<lparr>contents = c, wstate = DISABLED\<rparr>"
  by (simp add: update_results_modern_def config_state_def delete_all_def insert_end_def)

subsection \<open>The classifier\<close>

lemma classify_result_modern_eq: "classify_result_modern txt = classify_result txt"
  by (simp add: classify_result_modern_def classify_result_def Let_def)

lemma classify_environment_modern_eq: "classify_environment_modern self = classify_environment self"
  by (simp add: classify_environment_modern_def classify_environment_def Let_def
      classify_result_modern_eq update_results_eq update_results_modern_eq)

lemma classify_environment_nonempty:
  "strip (get_all (env_text_input self)) = txt \<Longrightarrow> txt \<noteq> [] \<Longrightarrow>
   classify_environment self =
     self\<lparr>env_results := \<lparr>contents = classify_result txt, wstate = DISABLED\<rparr>\<rparr>"
  by (simp add: classify_environment_def Let_def update_results_eq)

lemma confidence_of_saturated: "3 \<le> n \<Longrightarrow> confidence_of n = 1"
  by (simp add: confidence_of_def min_def)

lemma confidence_of_zero: "confidence_of 0 = 0"
  by (simp add: confidence_of_def)

lemma format_f_one: "format_f 2 1 = ''1.00''"
  by code_simp

lemma classify_result_positive:
  "0 < keyword_score txt \<Longrightarrow>
   classify_result txt =
     ''Classification: Environment-related\<newline>Confidence: ''
       @ format_f 2 (confidence_of (keyword_score txt))
       @ ''\<newline>Keywords found: '' @ str_nat (keyword_score txt)
       @ ''\<newline>\<newline>Environmental keywords detected: ''
       @ join '', '' (keywords_detected txt)"
  by (simp add: classify_result_def Let_def)

lemma classify_result_negative:
  "keyword_score txt = 0 \<Longrightarrow>
   classify_result txt =
     ''Classification: Not Environment-related\<newline>Confidence: 1.00\<newline>\<newline>No environmental keywords detected.''"
  by (simp add: classify_result_def Let_def confidence_of_zero format_f_one)

lemma keywords_detected_Nil_iff: "keywords_detected txt = [] \<longleftrightarrow> keyword_score txt = 0"
  by (simp add: keyword_score_length)

lemma keyword_score_zero_iff:
  "keyword_score txt = 0 \<longleftrightarrow> (\<forall>kw \<in> set keywords_list. \<not> (\<exists>ps ss. lower txt = ps @ kw @ ss))"
proof -
  have "keyword_score txt = 0 \<longleftrightarrow> set (keywords_detected txt) = {}"
    by (simp add: keyword_score_length)
  then show ?thesis
    unfolding set_keywords_detected by blast
qed

lemma strip_get_all_scenario:
  "strip (''Climate change and pollution affect biodiversity'' @ ''\<newline>'')
     = ''Climate change and pollution affect biodiversity''"
  by code_simp

lemma classify_result_scenario:
  "classify_result ''Climate change and pollution affect biodiversity'' =
     ''Classification: Environment-related\<newline>Confidence: 1.00\<newline>Keywords found: 3\<newline>\<newline>Environmental keywords detected: climate, pollution, biodiversity''"
  by code_simp

lemma count_list_join:
  "\<forall>k \<in> set ks. c \<notin> set k \<Longrightarrow>
   count_list (join sep ks) c = (length ks - 1) * count_list sep c"
  by (induction sep ks rule: join.induct) (simp_all add: count_list_0_iff)

lemma no_comma_in_keywords: "\<forall>k \<in> set keywords_list. CHR '','' \<notin> set k"
  by (simp add: keywords_list_def)

lemma commas_in_joined:
  "count_list (join '', '' (keywords_detected txt)) (CHR '','') = length (keywords_detected txt) - 1"
proof -
  have "\<forall>k \<in> set (keywords_detected txt). CHR '','' \<notin> set k"
    using no_comma_in_keywords by (simp add: keywords_detected_def)
  then show ?thesis
    by (simp add: count_list_join)
qed

lemma lower_newline: "lower (s @ ''\<newline>'') = lower s @ ''\<newline>''"
  by (simp add: lower_def lower_char_def)

lemma keywords_detected_lower: "keywords_detected (lower txt) = keywords_detected txt"
  by (simp add: keywords_detected_def lower_idem)

lemma keyword_score_lower: "keyword_score (lower txt) = keyword_score txt"
  by (simp add: keyword_score_length keywords_detected_lower)

lemma classify_result_lower: "classify_result (lower txt) = classify_result txt"
  by (simp add: classify_result_def Let_def keyword_score_lower keywords_detected_lower)

lemma classify_environment_lower:
  "classify_environment (self\<lparr>env_text_input := typed (lower (contents (env_text_input self))) (env_text_input self)\<rparr>)
     = (classify_environment self)
         \<lparr>env_text_input := typed (lower (contents (env_text_input self))) (env_text_input self)\<rparr>"
proof -
  have "strip (get_all (typed (lower (contents (env_text_input self))) (env_text_input self)))
      = lower (strip (get_all (env_text_input self)))"
    by (simp add: get_all_def typed_def lower_newline [symmetric] strip_lower)
  then show ?thesis
    by (simp add: classify_environment_def Let_def lower_Nil_iff classify_result_lower
        showwarning_def update_results_eq)
qed

subsection \<open>The handlers on rejected input and on a failing pipeline\<close>

lemma update_results_modern_fun: "update_results_modern = update_results"
  by (intro ext) (simp add: update_results_eq update_results_modern_eq)

lemma extract_entities_modern_eq: "extract_entities_modern self = extract_entities self"
  by (simp only: extract_entities_modern_def extract_entities_def update_results_modern_fun)

lemma extract_entities_empty:
  "strip (get_all (ner_text_input self)) = [] \<Longrightarrow>
   extract_entities self =
     self\<lparr>dialogs := dialogs self @ [ShowWarning ''Warning'' ''Please enter some text to analyze.'']\<rparr>"
  by (simp add: extract_entities_def showwarning_def)

lemma extract_entities_raises:
  "strip (get_all (ner_text_input self)) = txt \<Longrightarrow> txt \<noteq> [] \<Longrightarrow> ner self txt = Inl e \<Longrightarrow>
   extract_entities self =
     self\<lparr>pipeline_calls := pipeline_calls self @ [CallNer txt],
          dialogs := dialogs self @ [ShowError ''Error'' (''Entity extraction failed: '' @ e)]\<rparr>"
  by (simp add: extract_entities_def Let_def showerror_def)

lemma fill_mask_empty:
  "strip (get_all (mask_text_input self)) = [] \<Longrightarrow>
   fill_mask self =
     self\<lparr>dialogs := dialogs self @ [ShowWarning ''Warning'' ''Please enter text with [MASK] tokens.'']\<rparr>"
  by (simp add: fill_mask_def showwarning_def)

lemma fill_mask_modern_empty:
  "strip (get_all (mask_text_input self)) = [] \<Longrightarrow>
   fill_mask_modern self =
     self\<lparr>dialogs := dialogs self @ [ShowWarning ''Warning'' ''Please include [MASK] in your text.'']\<rparr>"
  by (simp add: fill_mask_modern_def showwarning_def)

lemma fill_mask_no_placeholder:
  "strip (get_all (mask_text_input self)) = txt \<Longrightarrow> txt \<noteq> [] \<Longrightarrow> \<not> py_in ''[MASK]'' txt \<Longrightarrow>
   fill_mask self =
     self\<lparr>dialogs := dialogs self
            @ [ShowWarning ''Warning'' ''Please include [MASK] tokens in your text.'']\<rparr>"
  by (simp add: fill_mask_def showwarning_def)

lemma fill_mask_modern_no_placeholder:
  "strip (get_all (mask_text_input self)) = txt \<Longrightarrow> \<not> py_in ''[MASK]'' txt \<Longrightarrow>
   fill_mask_modern self =
     self\<lparr>dialogs := dialogs self @ [ShowWarning ''Warning'' ''Please include [MASK] in your text.'']\<rparr>"
  by (simp add: fill_mask_modern_def showwarning_def)

lemma fill_mask_modern_accepted:
  "strip (get_all (mask_text_input self)) = txt \<Longrightarrow> txt \<noteq> [] \<Longrightarrow> py_in ''[MASK]'' txt \<Longrightarrow>
   fill_mask_modern self = fill_mask self"
  unfolding fill_mask_modern_def fill_mask_def update_results_modern_fun by simp

lemma fill_mask_raises:
  "strip (get_all (mask_text_input self)) = txt \<Longrightarrow> txt \<noteq> [] \<Longrightarrow> py_in ''[MASK]'' txt \<Longrightarrow>
   mask_filler self txt = Inl e \<Longrightarrow>
   fill_mask self =
     self\<lparr>pipeline_calls := pipeline_calls self @ [CallMaskFiller txt],
          dialogs := dialogs self @ [ShowError ''Error'' (''Mask filling failed: '' @ e)]\<rparr>"
  by (simp add: fill_mask_def Let_def showerror_def)

lemma classify_environment_empty:
  "strip (get_all (env_text_input self)) = [] \<Longrightarrow>
   classify_environment self =
     self\<lparr>dialogs := dialogs self @ [ShowWarning ''Warning'' ''Please enter some text to analyze.'']\<rparr>"
  by (simp add: classify_environment_def showwarning_def)

lemma generate_image_empty:
  "strip (get_all (image_prompt_input self)) = [] \<Longrightarrow>
   generate_image self =
     self\<lparr>dialogs := dialogs self @ [ShowWarning ''Warning'' ''Please enter an image prompt.'']\<rparr>"
  by (simp add: generate_image_def showwarning_def)

lemma generate_image_modern_empty:
  "strip (get_all (image_prompt_input self)) = [] \<Longrightarrow>
   generate_image_modern self =
     self\<lparr>dialogs := dialogs self @ [ShowWarning ''Warning'' ''Please enter an image prompt.'']\<rparr>"
  by (simp add: generate_image_modern_def showwarning_def)

section \<open>Claims\<close>

text \<open>
  C3. The shared render routine replaces the whole prior contents of the display region:
  rendering \<open>a\<close> and then \<open>b\<close> into the same region, whatever the region held and
  whatever its state was, leaves it holding exactly \<open>b\<close> and read-only (state
  \<open>DISABLED\<close>). This holds for \<open>update_results\<close> of both files.
\<close>

theorem render_replaces_contents:
  "update_results (update_results w a) b = \<lparr>contents = b, wstate = DISABLED\<rparr>
   \<and> update_results_modern (update_results_modern w a) b = \<lparr>contents = b, wstate = DISABLED\<rparr>"
  by (simp add: update_results_eq update_results_modern_eq)

theorem render_replaces_contents_witness:
  "contents (update_results (update_results \<lparr>contents = ''old'', wstate = DISABLED\<rparr> ''A'') ''B'') = ''B''
   \<and> contents (update_results (update_results \<lparr>contents = ''old'', wstate = DISABLED\<rparr> ''A'') ''B'') \<noteq> ''AB''
   \<and> contents (update_results (update_results \<lparr>contents = ''old'', wstate = DISABLED\<rparr> ''A'') ''B'') \<noteq> ''A B''
   \<and> wstate (update_results (update_results \<lparr>contents = ''old'', wstate = DISABLED\<rparr> ''A'') ''B'') = DISABLED
   \<and> contents (update_results_modern (update_results_modern \<lparr>contents = ''old'', wstate = NORMAL\<rparr> ''A'') ''B'') = ''B''
   \<and> wstate (update_results_modern (update_results_modern \<lparr>contents = ''old'', wstate = NORMAL\<rparr> ''A'') ''B'') = DISABLED"
  using render_replaces_contents [of "\<lparr>contents = ''old'', wstate = DISABLED\<rparr>" "''A''" "''B''"]
    render_replaces_contents [of "\<lparr>contents = ''old'', wstate = NORMAL\<rparr>" "''A''" "''B''"]
  by simp

text \<open>
  C1. For every input text \<open>txt\<close> that is non-empty after trimming, the score computed by
  \<open>classify_environment\<close> is the number of distinct terms of the 12-term keyword table
  that occur as substrings of the lower-cased text, the confidence is
  \<open>min (score / 3) 1\<close>, the handler (of either file) renders the classification block
  into the result region, and with at least three matching keywords that block names the
  label \<open>Environment-related\<close> with confidence \<open>1.00\<close>.
\<close>

theorem classify_counts_distinct_keywords:
  assumes "strip (get_all (env_text_input self)) = txt" and "txt \<noteq> []"
    and "n = card {kw \<in> set keywords_list. \<exists>ps ss. lower txt = ps @ kw @ ss}"
  shows "keyword_score txt = n
    \<and> confidence_of (keyword_score txt) = min (of_nat n / 3) 1
    \<and> classify_environment self =
        self\<lparr>env_results := \<lparr>contents = classify_result txt, wstate = DISABLED\<rparr>\<rparr>
    \<and> classify_environment_modern self =
        self\<lparr>env_results := \<lparr>contents = classify_result txt, wstate = DISABLED\<rparr>\<rparr>
    \<and> (3 \<le> n \<longrightarrow>
          confidence_of (keyword_score txt) = 1
          \<and> classify_result txt =
              ''Classification: Environment-related\<newline>Confidence: 1.00\<newline>Keywords found: ''
                @ str_nat n @ ''\<newline>\<newline>Environmental keywords detected: ''
                @ join '', '' (keywords_detected txt))"
proof -
  have score: "keyword_score txt = n"
    using assms(3) by (simp add: keyword_score_card)
  have conf: "confidence_of (keyword_score txt) = min (of_nat n / 3) 1"
    by (simp add: score confidence_of_def)
  have run: "classify_environment self =
      self\<lparr>env_results := \<lparr>contents = classify_result txt, wstate = DISABLED\<rparr>\<rparr>"
    using assms(1,2) by (rule classify_environment_nonempty)
  have run_modern: "classify_environment_modern self =
      self\<lparr>env_results := \<lparr>contents = classify_result txt, wstate = DISABLED\<rparr>\<rparr>"
    by (simp only: classify_environment_modern_eq run)
  have sat: "confidence_of (keyword_score txt) = 1
      \<and> classify_result txt =
          ''Classification: Environment-related\<newline>Confidence: 1.00\<newline>Keywords found: ''
            @ str_nat n @ ''\<newline>\<newline>Environmental keywords detected: ''
            @ join '', '' (keywords_detected txt)" if "3 \<le> n"
  proof -
    have one: "confidence_of n = 1"
      using that by (simp add: confidence_of_saturated)
    have "0 < keyword_score txt"
      using that by (simp add: score)
    then show ?thesis
      using classify_result_positive [of "txt"] by (simp add: score one format_f_one)
  qed
  from score conf run run_modern sat show ?thesis by blast
qed


theorem classify_counts_distinct_keywords_witness:
  "strip (get_all (env_text_input
      ((fresh_app (unloaded ''ner'') (unloaded ''mask_filler'') Missing)
         \<lparr>env_text_input := \<lparr>contents = ''Global warming: carbon emissions harm the Earth'',
                              wstate = NORMAL\<rparr>\<rparr>)))
     = ''Global warming: carbon emissions harm the Earth''
   \<and> card {kw \<in> set keywords_list.
         \<exists>ps ss. lower ''Global warming: carbon emissions harm the Earth'' = ps @ kw @ ss} = 4
   \<and> confidence_of 4 = 1
   \<and> env_results (classify_environment
        ((fresh_app (unloaded ''ner'') (unloaded ''mask_filler'') Missing)
           \<lparr>env_text_input := \<lparr>contents = ''Global warming: carbon emissions harm the Earth'',
                                wstate = NORMAL\<rparr>\<rparr>))
       = \<lparr>contents = ''Classification: Environment-related\<newline>Confidence: 1.00\<newline>Keywords found: 4\<newline>\<newline>Environmental keywords detected: earth, global warming, carbon, emissions'',
          wstate = DISABLED\<rparr>"
proof -
  let ?T = "''Global warming: carbon emissions harm the Earth''"
  let ?A = "(fresh_app (unloaded ''ner'') (unloaded ''mask_filler'') Missing)
              \<lparr>env_text_input := \<lparr>contents = ?T, wstate = NORMAL\<rparr>\<rparr>"
  have h1: "strip (get_all (env_text_input ?A)) = ?T"
    by code_simp
  have h2: "?T \<noteq> []"
    by simp
  note main = classify_counts_distinct_keywords [OF h1 h2 refl]
  have k: "keyword_score ?T = 4"
    by code_simp
  have d: "join '', '' (keywords_detected ?T) = ''earth, global warming, carbon, emissions''"
    by code_simp
  have s4: "str_nat 4 = ''4''"
    by code_simp
  from main k have c: "card {kw \<in> set keywords_list. \<exists>ps ss. lower ?T = ps @ kw @ ss} = 4"
    by simp
  from main have run: "classify_environment ?A =
      ?A\<lparr>env_results := \<lparr>contents = classify_result ?T, wstate = DISABLED\<rparr>\<rparr>"
    by blast
  from main c have "confidence_of 4 = 1 \<and> classify_result ?T =
      ''Classification: Environment-related\<newline>Confidence: 1.00\<newline>Keywords found: ''
        @ str_nat 4 @ ''\<newline>\<newline>Environmental keywords detected: ''
        @ join '', '' (keywords_detected ?T)"
    by (simp add: k)
  then have res: "confidence_of 4 = 1 \<and> classify_result ?T =
      ''Classification: Environment-related\<newline>Confidence: 1.00\<newline>Keywords found: 4\<newline>\<newline>Environmental keywords detected: earth, global warming, carbon, emissions''"
    by (simp add: d s4)
  show ?thesis
    using h1 c res by (simp add: run)
qed

text \<open>
  C2. For every input text that is non-empty after trimming and in which no keyword of
  the table occurs, the score is 0, the list of matched keywords is empty, the confidence
  is 0 so that the reported \<open>1 - confidence\<close> is exactly 1, and the handler (of either
  file) renders the label \<open>Not Environment-related\<close> with confidence \<open>1.00\<close>.
\<close>

theorem classify_no_keyword:
  assumes "strip (get_all (env_text_input self)) = txt" and "txt \<noteq> []"
    and "\<forall>kw \<in> set keywords_list. \<not> (\<exists>ps ss. lower txt = ps @ kw @ ss)"
  shows "keyword_score txt = 0
    \<and> keywords_detected txt = []
    \<and> confidence_of (keyword_score txt) = 0
    \<and> 1 - confidence_of (keyword_score txt) = 1
    \<and> classify_environment self =
        self\<lparr>env_results := \<lparr>contents =
          ''Classification: Not Environment-related\<newline>Confidence: 1.00\<newline>\<newline>No environmental keywords detected.'',
          wstate = DISABLED\<rparr>\<rparr>
    \<and> classify_environment_modern self =
        self\<lparr>env_results := \<lparr>contents =
          ''Classification: Not Environment-related\<newline>Confidence: 1.00\<newline>\<newline>No environmental keywords detected.'',
          wstate = DISABLED\<rparr>\<rparr>"
proof -
  have zero: "keyword_score txt = 0"
    using assms(3) by (simp only: keyword_score_zero_iff)
  have none: "keywords_detected txt = []"
    using zero by (simp only: keywords_detected_Nil_iff)
  have conf: "confidence_of (keyword_score txt) = 0"
    by (simp only: zero confidence_of_zero)
  have run: "classify_environment self =
      self\<lparr>env_results := \<lparr>contents = classify_result txt, wstate = DISABLED\<rparr>\<rparr>"
    using assms(1,2) by (rule classify_environment_nonempty)
  have res: "classify_result txt =
      ''Classification: Not Environment-related\<newline>Confidence: 1.00\<newline>\<newline>No environmental keywords detected.''"
    using zero by (rule classify_result_negative)
  show ?thesis
    by (simp only: classify_environment_modern_eq run res zero none confidence_of_zero) simp
qed

theorem classify_no_keyword_witness:
  "strip (get_all (env_text_input
      ((fresh_app (unloaded ''ner'') (unloaded ''mask_filler'') Missing)
         \<lparr>env_text_input := \<lparr>contents = ''  I like cats  '', wstate = NORMAL\<rparr>\<rparr>)))
     = ''I like cats''
   \<and> keywords_detected ''I like cats'' = []
   \<and> 1 - confidence_of (keyword_score ''I like cats'') = 1
   \<and> env_results (classify_environment
        ((fresh_app (unloaded ''ner'') (unloaded ''mask_filler'') Missing)
           \<lparr>env_text_input := \<lparr>contents = ''  I like cats  '', wstate = NORMAL\<rparr>\<rparr>))
       = \<lparr>contents = ''Classification: Not Environment-related\<newline>Confidence: 1.00\<newline>\<newline>No environmental keywords detected.'',
          wstate = DISABLED\<rparr>"
proof -
  let ?T = "''I like cats''"
  let ?A = "(fresh_app (unloaded ''ner'') (unloaded ''mask_filler'') Missing)
              \<lparr>env_text_input := \<lparr>contents = ''  I like cats  '', wstate = NORMAL\<rparr>\<rparr>"
  have h1: "strip (get_all (env_text_input ?A)) = ?T"
    by code_simp
  have h2: "?T \<noteq> []"
    by simp
  have "\<forall>kw \<in> set keywords_list. \<not> py_in kw (lower ?T)"
    by code_simp
  then have h3: "\<forall>kw \<in> set keywords_list. \<not> (\<exists>ps ss. lower ?T = ps @ kw @ ss)"
    by (simp only: py_in_iff)
  note main = classify_no_keyword [OF h1 h2 h3]
  show ?thesis
    using h1 main by (simp add: confidence_of_zero)
qed

text \<open>
  C7. On the input \<open>Climate change and pollution affect biodiversity\<close> the score is 3,
  the matched keywords are climate, pollution and biodiversity in the order of the keyword
  table, the confidence prints as \<open>1.00\<close>, and the handler (of either file) renders the
  block naming the label \<open>Environment-related\<close>, the confidence, the count 3 and the
  three keywords.
\<close>

theorem scenario_climate_pollution_biodiversity:
  assumes "contents (env_text_input self) = ''Climate change and pollution affect biodiversity''"
  shows "keyword_score ''Climate change and pollution affect biodiversity'' = 3
    \<and> keywords_detected ''Climate change and pollution affect biodiversity''
        = [''climate'', ''pollution'', ''biodiversity'']
    \<and> format_f 2 (confidence_of 3) = ''1.00''
    \<and> classify_environment self =
        self\<lparr>env_results := \<lparr>contents =
          ''Classification: Environment-related\<newline>Confidence: 1.00\<newline>Keywords found: 3\<newline>\<newline>Environmental keywords detected: climate, pollution, biodiversity'',
          wstate = DISABLED\<rparr>\<rparr>
    \<and> classify_environment_modern self =
        self\<lparr>env_results := \<lparr>contents =
          ''Classification: Environment-related\<newline>Confidence: 1.00\<newline>Keywords found: 3\<newline>\<newline>Environmental keywords detected: climate, pollution, biodiversity'',
          wstate = DISABLED\<rparr>\<rparr>"
proof -
  let ?T = "''Climate change and pollution affect biodiversity''"
  have k: "keyword_score ?T = 3"
    by code_simp
  have d: "keywords_detected ?T = [''climate'', ''pollution'', ''biodiversity'']"
    by code_simp
  have f: "format_f 2 (confidence_of 3) = ''1.00''"
    by code_simp
  have "strip (get_all (env_text_input self)) = ?T"
    unfolding get_all_def assms by (rule strip_get_all_scenario)
  then have run: "classify_environment self =
      self\<lparr>env_results := \<lparr>contents = classify_result ?T, wstate = DISABLED\<rparr>\<rparr>"
    by (rule classify_environment_nonempty) simp
  show ?thesis
    by (simp only: classify_environment_modern_eq run classify_result_scenario k d f)
qed

theorem scenario_climate_pollution_biodiversity_witness:
  "contents (env_text_input
      ((fresh_app (unloaded ''ner'') (unloaded ''mask_filler'') Missing)
         \<lparr>env_text_input := \<lparr>contents = ''Climate change and pollution affect biodiversity'',
                              wstate = NORMAL\<rparr>\<rparr>))
     = ''Climate change and pollution affect biodiversity''
   \<and> contents (env_results (classify_environment
        ((fresh_app (unloaded ''ner'') (unloaded ''mask_filler'') Missing)
           \<lparr>env_text_input := \<lparr>contents = ''Climate change and pollution affect biodiversity'',
                                wstate = NORMAL\<rparr>\<rparr>)))
       = ''Classification: Environment-related\<newline>Confidence: 1.00\<newline>Keywords found: 3\<newline>\<newline>Environmental keywords detected: climate, pollution, biodiversity''
   \<and> dialogs (classify_environment
        ((fresh_app (unloaded ''ner'') (unloaded ''mask_filler'') Missing)
           \<lparr>env_text_input := \<lparr>contents = ''Climate change and pollution affect biodiversity'',
                                wstate = NORMAL\<rparr>\<rparr>)) = []"
proof -
  let ?A = "(fresh_app (unloaded ''ner'') (unloaded ''mask_filler'') Missing)
         \<lparr>env_text_input := \<lparr>contents = ''Climate change and pollution affect biodiversity'',
                              wstate = NORMAL\<rparr>\<rparr>"
  have h: "contents (env_text_input ?A) = ''Climate change and pollution affect biodiversity''"
    by simp
  note main = scenario_climate_pollution_biodiversity [OF h]
  have "dialogs ?A = []"
    by (simp add: fresh_app_def)
  then show ?thesis
    using main by simp
qed

text \<open>
  C8. Classification is case-insensitive: the lower-cased text has the same score, the
  same matched keywords, the same confidence and the same rendered block as the text
  itself; the handler (of either file) run on the lower-cased input region leaves the same
  result region and the same message boxes; \<open>Climate\<close> and \<open>climate\<close> have the same
  score.
\<close>

theorem classify_case_insensitive:
  "keyword_score (lower txt) = keyword_score txt
   \<and> keywords_detected (lower txt) = keywords_detected txt
   \<and> confidence_of (keyword_score (lower txt)) = confidence_of (keyword_score txt)
   \<and> classify_result (lower txt) = classify_result txt
   \<and> env_results (classify_environment
        (self\<lparr>env_text_input := typed (lower (contents (env_text_input self))) (env_text_input self)\<rparr>))
       = env_results (classify_environment self)
   \<and> dialogs (classify_environment
        (self\<lparr>env_text_input := typed (lower (contents (env_text_input self))) (env_text_input self)\<rparr>))
       = dialogs (classify_environment self)
   \<and> env_results (classify_environment_modern
        (self\<lparr>env_text_input := typed (lower (contents (env_text_input self))) (env_text_input self)\<rparr>))
       = env_results (classify_environment_modern self)
   \<and> dialogs (classify_environment_modern
        (self\<lparr>env_text_input := typed (lower (contents (env_text_input self))) (env_text_input self)\<rparr>))
       = dialogs (classify_environment_modern self)
   \<and> keyword_score ''Climate'' = keyword_score ''climate''"
proof -
  have "lower ''Climate'' = ''climate''"
    by code_simp
  then have "keyword_score ''Climate'' = keyword_score ''climate''"
    using keyword_score_lower [of "''Climate''"] by simp
  then show ?thesis
    by (simp add: keyword_score_lower keywords_detected_lower classify_result_lower
        classify_environment_lower classify_environment_modern_eq)
qed

theorem classify_case_insensitive_witness:
  "keyword_score ''Climate'' = 1 \<and> keyword_score ''climate'' = 1
   \<and> lower ''The EARTH and its Climate'' = ''the earth and its climate''
   \<and> keyword_score ''the earth and its climate'' = 2
   \<and> keyword_score ''The EARTH and its Climate'' = 2
   \<and> classify_result ''The EARTH and its Climate'' = classify_result ''the earth and its climate''"
proof -
  have l: "lower ''The EARTH and its Climate'' = ''the earth and its climate''"
    by code_simp
  have k1: "keyword_score ''climate'' = 1"
    by code_simp
  have k2: "keyword_score ''the earth and its climate'' = 2"
    by code_simp
  note main = classify_case_insensitive [of "''The EARTH and its Climate''"]
  show ?thesis
    using main by (simp add: l k1 k2)
qed

text \<open>
  C10. For every input that is non-empty after trimming and has a positive score, the
  positive block is consistent: the integer printed after \<open>Keywords found:\<close> is the
  length of the list of matched keywords that is joined with \<open>, \<close> after it (the joined
  text holds one comma fewer than that integer, no keyword holding a comma), every listed
  string is a keyword of the table, and the integer lies between 1 and 12.
\<close>

theorem positive_block_consistent:
  assumes "strip (get_all (env_text_input self)) = txt" and "txt \<noteq> []"
    and "0 < keyword_score txt"
  shows "contents (env_results (classify_environment self)) =
        ''Classification: Environment-related\<newline>Confidence: ''
          @ format_f 2 (confidence_of (keyword_score txt))
          @ ''\<newline>Keywords found: '' @ str_nat (length (keywords_detected txt))
          @ ''\<newline>\<newline>Environmental keywords detected: ''
          @ join '', '' (keywords_detected txt)
    \<and> env_results (classify_environment_modern self) = env_results (classify_environment self)
    \<and> keyword_score txt = length (keywords_detected txt)
    \<and> count_list (join '', '' (keywords_detected txt)) (CHR '','') + 1
        = length (keywords_detected txt)
    \<and> set (keywords_detected txt) \<subseteq> set keywords_list
    \<and> 1 \<le> length (keywords_detected txt) \<and> length (keywords_detected txt) \<le> 12"
proof -
  have run: "classify_environment self =
      self\<lparr>env_results := \<lparr>contents = classify_result txt, wstate = DISABLED\<rparr>\<rparr>"
    using assms(1,2) by (rule classify_environment_nonempty)
  have block: "contents (env_results (classify_environment self)) =
        ''Classification: Environment-related\<newline>Confidence: ''
          @ format_f 2 (confidence_of (keyword_score txt))
          @ ''\<newline>Keywords found: '' @ str_nat (length (keywords_detected txt))
          @ ''\<newline>\<newline>Environmental keywords detected: ''
          @ join '', '' (keywords_detected txt)"
    using classify_result_positive [OF assms(3)]
    by (simp add: run keyword_score_length)
  have len: "1 \<le> length (keywords_detected txt) \<and> length (keywords_detected txt) \<le> 12"
    using assms(3) keyword_score_le [of "txt"] unfolding keyword_score_length by linarith
  then have commas: "count_list (join '', '' (keywords_detected txt)) (CHR '','') + 1
      = length (keywords_detected txt)"
    unfolding commas_in_joined by linarith
  have sub: "set (keywords_detected txt) \<subseteq> set keywords_list"
    by (simp add: keywords_detected_def)
  show ?thesis
    using block len commas sub
    by (simp only: classify_environment_modern_eq keyword_score_length)
qed


theorem positive_block_consistent_witness:
  "strip (get_all (env_text_input
      ((fresh_app (unloaded ''ner'') (unloaded ''mask_filler'') Missing)
         \<lparr>env_text_input := \<lparr>contents = ''Recycle to cut pollution'', wstate = NORMAL\<rparr>\<rparr>)))
     = ''Recycle to cut pollution''
   \<and> 0 < keyword_score ''Recycle to cut pollution''
   \<and> contents (env_results (classify_environment
        ((fresh_app (unloaded ''ner'') (unloaded ''mask_filler'') Missing)
           \<lparr>env_text_input := \<lparr>contents = ''Recycle to cut pollution'', wstate = NORMAL\<rparr>\<rparr>)))
       = ''Classification: Environment-related\<newline>Confidence: 0.67\<newline>Keywords found: 2\<newline>\<newline>Environmental keywords detected: pollution, recycle''
   \<and> count_list (join '', '' (keywords_detected ''Recycle to cut pollution'')) (CHR '','') + 1 = 2
   \<and> length (keywords_detected ''Recycle to cut pollution'') = 2"
proof -
  let ?T = "''Recycle to cut pollution''"
  let ?A = "(fresh_app (unloaded ''ner'') (unloaded ''mask_filler'') Missing)
              \<lparr>env_text_input := \<lparr>contents = ?T, wstate = NORMAL\<rparr>\<rparr>"
  have h1: "strip (get_all (env_text_input ?A)) = ?T"
    by code_simp
  have h2: "?T \<noteq> []"
    by simp
  have k: "keyword_score ?T = 2"
    by code_simp
  then have h3: "0 < keyword_score ?T"
    by simp
  note main = positive_block_consistent [OF h1 h2 h3]
  have d: "keywords_detected ?T = [''pollution'', ''recycle'']"
    by code_simp
  have f: "format_f 2 (confidence_of 2) = ''0.67''"
    by code_simp
  have s2: "str_nat (Suc (Suc 0)) = ''2''"
    by code_simp
  show ?thesis
    using h1 h3 main by (simp add: k d f s2)
qed

text \<open>
  C4. Whenever the external pipeline raises during entity extraction or mask filling (on
  an input that passed validation), the handler of either file catches the exception,
  shows exactly one error box carrying the exception's message, and returns with the
  result region at its previous contents: nothing is rendered, and only the logs of the
  message boxes and of the pipeline calls grow.
\<close>

theorem pipeline_error_is_caught:
  "(strip (get_all (ner_text_input self)) = txt \<and> txt \<noteq> [] \<and> ner self txt = Inl e \<longrightarrow>
      extract_entities self =
        self\<lparr>pipeline_calls := pipeline_calls self @ [CallNer txt],
             dialogs := dialogs self @ [ShowError ''Error'' (''Entity extraction failed: '' @ e)]\<rparr>
      \<and> extract_entities_modern self = extract_entities self
      \<and> ner_results (extract_entities self) = ner_results self)
   \<and> (strip (get_all (mask_text_input self)) = txt \<and> (\<exists>ps ss. txt = ps @ ''[MASK]'' @ ss)
        \<and> mask_filler self txt = Inl e \<longrightarrow>
      fill_mask self =
        self\<lparr>pipeline_calls := pipeline_calls self @ [CallMaskFiller txt],
             dialogs := dialogs self @ [ShowError ''Error'' (''Mask filling failed: '' @ e)]\<rparr>
      \<and> fill_mask_modern self = fill_mask self
      \<and> mask_results (fill_mask self) = mask_results self)"
proof -
  have ner_part: "extract_entities self =
        self\<lparr>pipeline_calls := pipeline_calls self @ [CallNer txt],
             dialogs := dialogs self @ [ShowError ''Error'' (''Entity extraction failed: '' @ e)]\<rparr>
      \<and> extract_entities_modern self = extract_entities self
      \<and> ner_results (extract_entities self) = ner_results self"
    if "strip (get_all (ner_text_input self)) = txt" "txt \<noteq> []" "ner self txt = Inl e"
    using extract_entities_raises [OF that] by (simp add: extract_entities_modern_eq)
  have mask_part: "fill_mask self =
        self\<lparr>pipeline_calls := pipeline_calls self @ [CallMaskFiller txt],
             dialogs := dialogs self @ [ShowError ''Error'' (''Mask filling failed: '' @ e)]\<rparr>
      \<and> fill_mask_modern self = fill_mask self
      \<and> mask_results (fill_mask self) = mask_results self"
    if s: "strip (get_all (mask_text_input self)) = txt" and m: "\<exists>ps ss. txt = ps @ ''[MASK]'' @ ss"
      and r: "mask_filler self txt = Inl e"
  proof -
    from m have p: "py_in ''[MASK]'' txt"
      by (simp only: py_in_iff)
    from m have n: "txt \<noteq> []"
      by auto
    show ?thesis
      using fill_mask_raises [OF s n p r] fill_mask_modern_accepted [OF s n p] by simp
  qed
  from ner_part mask_part show ?thesis by blast
qed


theorem pipeline_error_is_caught_witness:
  "ner ((fresh_app (unloaded ''ner'') (unloaded ''mask_filler'') Missing)
          \<lparr>ner_text_input := \<lparr>contents = ''Paris is nice'', wstate = NORMAL\<rparr>,
            ner_results := \<lparr>contents = ''previous entities'', wstate = DISABLED\<rparr>\<rparr>)
       ''Paris is nice''
     = Inl ([CHR 0x27] @ ''ModernNLPApp'' @ [CHR 0x27] @ '' object has no attribute ''
              @ [CHR 0x27] @ ''ner'' @ [CHR 0x27])
   \<and> dialogs (extract_entities
        ((fresh_app (unloaded ''ner'') (unloaded ''mask_filler'') Missing)
           \<lparr>ner_text_input := \<lparr>contents = ''Paris is nice'', wstate = NORMAL\<rparr>,
             ner_results := \<lparr>contents = ''previous entities'', wstate = DISABLED\<rparr>\<rparr>))
       = [ShowError ''Error'' (''Entity extraction failed: ''
            @ [CHR 0x27] @ ''ModernNLPApp'' @ [CHR 0x27] @ '' object has no attribute ''
            @ [CHR 0x27] @ ''ner'' @ [CHR 0x27])]
   \<and> ner_results (extract_entities
        ((fresh_app (unloaded ''ner'') (unloaded ''mask_filler'') Missing)
           \<lparr>ner_text_input := \<lparr>contents = ''Paris is nice'', wstate = NORMAL\<rparr>,
             ner_results := \<lparr>contents = ''previous entities'', wstate = DISABLED\<rparr>\<rparr>))
       = \<lparr>contents = ''previous entities'', wstate = DISABLED\<rparr>
   \<and> mask_filler ((fresh_app (unloaded ''ner'') (unloaded ''mask_filler'') Missing)
          \<lparr>mask_text_input := \<lparr>contents = ''The earth is [MASK].'', wstate = NORMAL\<rparr>,
            mask_results := \<lparr>contents = ''previous predictions'', wstate = DISABLED\<rparr>\<rparr>)
       ''The earth is [MASK].''
     = Inl ([CHR 0x27] @ ''ModernNLPApp'' @ [CHR 0x27] @ '' object has no attribute ''
              @ [CHR 0x27] @ ''mask_filler'' @ [CHR 0x27])
   \<and> dialogs (fill_mask
        ((fresh_app (unloaded ''ner'') (unloaded ''mask_filler'') Missing)
           \<lparr>mask_text_input := \<lparr>contents = ''The earth is [MASK].'', wstate = NORMAL\<rparr>,
             mask_results := \<lparr>contents = ''previous predictions'', wstate = DISABLED\<rparr>\<rparr>))
       = [ShowError ''Error'' (''Mask filling failed: ''
            @ [CHR 0x27] @ ''ModernNLPApp'' @ [CHR 0x27] @ '' object has no attribute ''
            @ [CHR 0x27] @ ''mask_filler'' @ [CHR 0x27])]
   \<and> mask_results (fill_mask_modern
        ((fresh_app (unloaded ''ner'') (unloaded ''mask_filler'') Missing)
           \<lparr>mask_text_input := \<lparr>contents = ''The earth is [MASK].'', wstate = NORMAL\<rparr>,
             mask_results := \<lparr>contents = ''previous predictions'', wstate = DISABLED\<rparr>\<rparr>))
       = \<lparr>contents = ''previous predictions'', wstate = DISABLED\<rparr>"
proof -
  let ?N = "(fresh_app (unloaded ''ner'') (unloaded ''mask_filler'') Missing)
           \<lparr>ner_text_input := \<lparr>contents = ''Paris is nice'', wstate = NORMAL\<rparr>,
             ner_results := \<lparr>contents = ''previous entities'', wstate = DISABLED\<rparr>\<rparr>"
  let ?M = "(fresh_app (unloaded ''ner'') (unloaded ''mask_filler'') Missing)
           \<lparr>mask_text_input := \<lparr>contents = ''The earth is [MASK].'', wstate = NORMAL\<rparr>,
             mask_results := \<lparr>contents = ''previous predictions'', wstate = DISABLED\<rparr>\<rparr>"
  let ?en = "[CHR 0x27] @ ''ModernNLPApp'' @ [CHR 0x27] @ '' object has no attribute ''
              @ [CHR 0x27] @ ''ner'' @ [CHR 0x27]"
  let ?em = "[CHR 0x27] @ ''ModernNLPApp'' @ [CHR 0x27] @ '' object has no attribute ''
              @ [CHR 0x27] @ ''mask_filler'' @ [CHR 0x27]"
  have n1: "strip (get_all (ner_text_input ?N)) = ''Paris is nice''"
    by code_simp
  have n2: "ner ?N ''Paris is nice'' = Inl ?en"
    by (simp add: fresh_app_def unloaded_def attribute_error_def)
  have m1: "strip (get_all (mask_text_input ?M)) = ''The earth is [MASK].''"
    by code_simp
  have m2: "mask_filler ?M ''The earth is [MASK].'' = Inl ?em"
    by (simp add: fresh_app_def unloaded_def attribute_error_def)
  have "''The earth is [MASK].'' = ''The earth is '' @ ''[MASK]'' @ ''.''"
    by simp
  then have m3: "\<exists>ps ss. ''The earth is [MASK].'' = ps @ ''[MASK]'' @ ss"
    by blast
  have d: "dialogs ?N = [] \<and> dialogs ?M = []"
    by (simp add: fresh_app_def)
  from pipeline_error_is_caught [of ?N "''Paris is nice''" ?en] n1 n2
  have rn: "extract_entities ?N =
      ?N\<lparr>pipeline_calls := pipeline_calls ?N @ [CallNer ''Paris is nice''],
         dialogs := dialogs ?N @ [ShowError ''Error'' (''Entity extraction failed: '' @ ?en)]\<rparr>"
    by simp
  from pipeline_error_is_caught [of ?M "''The earth is [MASK].''" ?em] m1 m2 m3
  have rm: "fill_mask ?M =
      ?M\<lparr>pipeline_calls := pipeline_calls ?M @ [CallMaskFiller ''The earth is [MASK].''],
         dialogs := dialogs ?M @ [ShowError ''Error'' (''Mask filling failed: '' @ ?em)]\<rparr>
      \<and> fill_mask_modern ?M = fill_mask ?M"
    by simp
  show ?thesis
    using n2 m2 d by (simp add: rn rm)
qed

text \<open>
  C5. On an input that is empty after trimming, each of the four actions, in either file,
  only shows one validation warning: the state after the handler is the state before it
  with that one warning appended to the message boxes, so no pipeline is called and no
  result region or image label is written.
\<close>

theorem empty_input_only_warns:
  "(strip (get_all (env_text_input self)) = [] \<longrightarrow>
      classify_environment self =
        self\<lparr>dialogs := dialogs self
               @ [ShowWarning ''Warning'' ''Please enter some text to analyze.'']\<rparr>
      \<and> classify_environment_modern self = classify_environment self)
   \<and> (strip (get_all (ner_text_input self)) = [] \<longrightarrow>
      extract_entities self =
        self\<lparr>dialogs := dialogs self
               @ [ShowWarning ''Warning'' ''Please enter some text to analyze.'']\<rparr>
      \<and> extract_entities_modern self = extract_entities self)
   \<and> (strip (get_all (mask_text_input self)) = [] \<longrightarrow>
      fill_mask self =
        self\<lparr>dialogs := dialogs self
               @ [ShowWarning ''Warning'' ''Please enter text with [MASK] tokens.'']\<rparr>
      \<and> fill_mask_modern self =
        self\<lparr>dialogs := dialogs self
               @ [ShowWarning ''Warning'' ''Please include [MASK] in your text.'']\<rparr>)
   \<and> (strip (get_all (image_prompt_input self)) = [] \<longrightarrow>
      generate_image self =
        self\<lparr>dialogs := dialogs self @ [ShowWarning ''Warning'' ''Please enter an image prompt.'']\<rparr>
      \<and> generate_image_modern self = generate_image self)"
  by (simp add: classify_environment_empty classify_environment_modern_eq
      extract_entities_empty extract_entities_modern_eq fill_mask_empty fill_mask_modern_empty
      generate_image_empty generate_image_modern_empty)


theorem empty_input_only_warns_witness:
  "strip (get_all (env_text_input
      ((fresh_app (answering []) (answering []) (Assigned (Some ())))
         \<lparr>env_text_input := \<lparr>contents = ''   '', wstate = NORMAL\<rparr>,
           ner_text_input := \<lparr>contents = '' \<newline> '', wstate = NORMAL\<rparr>,
           mask_text_input := \<lparr>contents = ''\<newline>\<newline>'', wstate = NORMAL\<rparr>\<rparr>))) = []
   \<and> dialogs (classify_environment_modern
        ((fresh_app (answering []) (answering []) (Assigned (Some ())))
           \<lparr>env_text_input := \<lparr>contents = ''   '', wstate = NORMAL\<rparr>,
             ner_text_input := \<lparr>contents = '' \<newline> '', wstate = NORMAL\<rparr>,
             mask_text_input := \<lparr>contents = ''\<newline>\<newline>'', wstate = NORMAL\<rparr>\<rparr>))
       = [ShowWarning ''Warning'' ''Please enter some text to analyze.'']
   \<and> dialogs (extract_entities
        ((fresh_app (answering []) (answering []) (Assigned (Some ())))
           \<lparr>env_text_input := \<lparr>contents = ''   '', wstate = NORMAL\<rparr>,
             ner_text_input := \<lparr>contents = '' \<newline> '', wstate = NORMAL\<rparr>,
             mask_text_input := \<lparr>contents = ''\<newline>\<newline>'', wstate = NORMAL\<rparr>\<rparr>))
       = [ShowWarning ''Warning'' ''Please enter some text to analyze.'']
   \<and> pipeline_calls (extract_entities
        ((fresh_app (answering []) (answering []) (Assigned (Some ())))
           \<lparr>env_text_input := \<lparr>contents = ''   '', wstate = NORMAL\<rparr>,
             ner_text_input := \<lparr>contents = '' \<newline> '', wstate = NORMAL\<rparr>,
             mask_text_input := \<lparr>contents = ''\<newline>\<newline>'', wstate = NORMAL\<rparr>\<rparr>)) = []
   \<and> dialogs (fill_mask
        ((fresh_app (answering []) (answering []) (Assigned (Some ())))
           \<lparr>env_text_input := \<lparr>contents = ''   '', wstate = NORMAL\<rparr>,
             ner_text_input := \<lparr>contents = '' \<newline> '', wstate = NORMAL\<rparr>,
             mask_text_input := \<lparr>contents = ''\<newline>\<newline>'', wstate = NORMAL\<rparr>\<rparr>))
       = [ShowWarning ''Warning'' ''Please enter text with [MASK] tokens.'']
   \<and> pipeline_calls (fill_mask_modern
        ((fresh_app (answering []) (answering []) (Assigned (Some ())))
           \<lparr>env_text_input := \<lparr>contents = ''   '', wstate = NORMAL\<rparr>,
             ner_text_input := \<lparr>contents = '' \<newline> '', wstate = NORMAL\<rparr>,
             mask_text_input := \<lparr>contents = ''\<newline>\<newline>'', wstate = NORMAL\<rparr>\<rparr>)) = []
   \<and> dialogs (generate_image
        ((fresh_app (answering []) (answering []) (Assigned (Some ())))
           \<lparr>env_text_input := \<lparr>contents = ''   '', wstate = NORMAL\<rparr>,
             ner_text_input := \<lparr>contents = '' \<newline> '', wstate = NORMAL\<rparr>,
             mask_text_input := \<lparr>contents = ''\<newline>\<newline>'', wstate = NORMAL\<rparr>\<rparr>))
       = [ShowWarning ''Warning'' ''Please enter an image prompt.'']
   \<and> image_label (generate_image_modern
        ((fresh_app (answering []) (answering []) (Assigned (Some ())))
           \<lparr>env_text_input := \<lparr>contents = ''   '', wstate = NORMAL\<rparr>,
             ner_text_input := \<lparr>contents = '' \<newline> '', wstate = NORMAL\<rparr>,
             mask_text_input := \<lparr>contents = ''\<newline>\<newline>'', wstate = NORMAL\<rparr>\<rparr>))
       = ''Generated image will appear here''"
proof -
  let ?A = "(fresh_app (answering []) (answering []) (Assigned (Some ())))
           \<lparr>env_text_input := \<lparr>contents = ''   '', wstate = NORMAL\<rparr>,
             ner_text_input := \<lparr>contents = '' \<newline> '', wstate = NORMAL\<rparr>,
             mask_text_input := \<lparr>contents = ''\<newline>\<newline>'', wstate = NORMAL\<rparr>\<rparr>"
  have e: "strip (get_all (env_text_input ?A)) = []"
    by code_simp
  have n: "strip (get_all (ner_text_input ?A)) = []"
    by code_simp
  have m: "strip (get_all (mask_text_input ?A)) = []"
    by code_simp
  have i: "strip (get_all (image_prompt_input ?A)) = []"
    by code_simp
  have s: "dialogs ?A = [] \<and> pipeline_calls ?A = []
      \<and> image_label ?A = ''Generated image will appear here''"
    by (simp add: fresh_app_def)
  note main = empty_input_only_warns [of ?A]
  from main e have r1: "classify_environment_modern ?A =
      ?A\<lparr>dialogs := dialogs ?A @ [ShowWarning ''Warning'' ''Please enter some text to analyze.'']\<rparr>"
    by simp
  from main n have r2: "extract_entities ?A =
      ?A\<lparr>dialogs := dialogs ?A @ [ShowWarning ''Warning'' ''Please enter some text to analyze.'']\<rparr>"
    by simp
  from main m have r3: "fill_mask ?A =
      ?A\<lparr>dialogs := dialogs ?A @ [ShowWarning ''Warning'' ''Please enter text with [MASK] tokens.'']\<rparr>
    \<and> fill_mask_modern ?A =
      ?A\<lparr>dialogs := dialogs ?A @ [ShowWarning ''Warning'' ''Please include [MASK] in your text.'']\<rparr>"
    by simp
  from main i have r4: "generate_image ?A =
      ?A\<lparr>dialogs := dialogs ?A @ [ShowWarning ''Warning'' ''Please enter an image prompt.'']\<rparr>
    \<and> generate_image_modern ?A = generate_image ?A"
    by simp
  show ?thesis
    using e s by (simp add: r1 r2 r3 r4)
qed

text \<open>
  C6. A mask-fill input that is non-empty after trimming but does not contain the literal
  \<open>[MASK]\<close> is rejected in either file: the handler only appends one warning to the
  message boxes; the fill-mask pipeline is not called and the result region is not
  written.
\<close>

theorem mask_placeholder_required:
  assumes "strip (get_all (mask_text_input self)) = txt" and "txt \<noteq> []"
    and "\<not> (\<exists>ps ss. txt = ps @ ''[MASK]'' @ ss)"
  shows "fill_mask self =
        self\<lparr>dialogs := dialogs self
               @ [ShowWarning ''Warning'' ''Please include [MASK] tokens in your text.'']\<rparr>
    \<and> fill_mask_modern self =
        self\<lparr>dialogs := dialogs self
               @ [ShowWarning ''Warning'' ''Please include [MASK] in your text.'']\<rparr>
    \<and> pipeline_calls (fill_mask self) = pipeline_calls self
    \<and> pipeline_calls (fill_mask_modern self) = pipeline_calls self
    \<and> mask_results (fill_mask self) = mask_results self
    \<and> mask_results (fill_mask_modern self) = mask_results self"
proof -
  from assms(3) have p: "\<not> py_in ''[MASK]'' txt"
    by (simp only: py_in_iff not_False_eq_True)
  show ?thesis
    using fill_mask_no_placeholder [OF assms(1,2) p] fill_mask_modern_no_placeholder [OF assms(1) p]
    by simp
qed

theorem mask_placeholder_required_witness:
  "strip (get_all (mask_text_input
      ((fresh_app (answering []) (answering []) (Assigned None))
         \<lparr>mask_text_input := \<lparr>contents = ''The earth is [mask].'', wstate = NORMAL\<rparr>\<rparr>)))
     = ''The earth is [mask].''
   \<and> \<not> py_in ''[MASK]'' ''The earth is [mask].''
   \<and> dialogs (fill_mask
        ((fresh_app (answering []) (answering []) (Assigned None))
           \<lparr>mask_text_input := \<lparr>contents = ''The earth is [mask].'', wstate = NORMAL\<rparr>\<rparr>))
       = [ShowWarning ''Warning'' ''Please include [MASK] tokens in your text.'']
   \<and> dialogs (fill_mask_modern
        ((fresh_app (answering []) (answering []) (Assigned None))
           \<lparr>mask_text_input := \<lparr>contents = ''The earth is [mask].'', wstate = NORMAL\<rparr>\<rparr>))
       = [ShowWarning ''Warning'' ''Please include [MASK] in your text.'']
   \<and> pipeline_calls (fill_mask
        ((fresh_app (answering []) (answering []) (Assigned None))
           \<lparr>mask_text_input := \<lparr>contents = ''The earth is [mask].'', wstate = NORMAL\<rparr>\<rparr>)) = []
   \<and> pipeline_calls (fill_mask_modern
        ((fresh_app (answering []) (answering []) (Assigned None))
           \<lparr>mask_text_input := \<lparr>contents = ''The earth is [mask].'', wstate = NORMAL\<rparr>\<rparr>)) = []"
proof -
  let ?T = "''The earth is [mask].''"
  let ?A = "(fresh_app (answering []) (answering []) (Assigned None))
           \<lparr>mask_text_input := \<lparr>contents = ?T, wstate = NORMAL\<rparr>\<rparr>"
  have h1: "strip (get_all (mask_text_input ?A)) = ?T"
    by code_simp
  have h2: "?T \<noteq> []"
    by simp
  have p: "\<not> py_in ''[MASK]'' ?T"
    by code_simp
  then have h3: "\<not> (\<exists>ps ss. ?T = ps @ ''[MASK]'' @ ss)"
    by (simp only: py_in_iff not_False_eq_True)
  note main = mask_placeholder_required [OF h1 h2 h3]
  have s: "dialogs ?A = [] \<and> pipeline_calls ?A = []"
    by (simp add: fresh_app_def)
  show ?thesis
    using h1 p s main by simp
qed

text \<open>
  C9. The claim that every corresponding handler of the two files produces identical
  warnings fails for mask filling: on an empty mask input \<open>modern_nlp_app.py\<close> warns
  \<open>Please include [MASK] in your text.\<close> and \<open>nlp_project.py\<close> warns
  \<open>Please enter text with [MASK] tokens.\<close>
\<close>

theorem mask_warning_texts_differ:
  "dialogs (fill_mask_modern (fresh_app (unloaded ''ner'') (unloaded ''mask_filler'') Missing))
     = [ShowWarning ''Warning'' ''Please include [MASK] in your text.'']
   \<and> dialogs (fill_mask (fresh_app (unloaded ''ner'') (unloaded ''mask_filler'') Missing))
     = [ShowWarning ''Warning'' ''Please enter text with [MASK] tokens.'']
   \<and> fill_mask_modern (fresh_app (unloaded ''ner'') (unloaded ''mask_filler'') Missing)
     \<noteq> fill_mask (fresh_app (unloaded ''ner'') (unloaded ''mask_filler'') Missing)"
proof -
  have m: "dialogs (fill_mask_modern (fresh_app (unloaded ''ner'') (unloaded ''mask_filler'') Missing))
      = [ShowWarning ''Warning'' ''Please include [MASK] in your text.'']"
    by code_simp
  have p: "dialogs (fill_mask (fresh_app (unloaded ''ner'') (unloaded ''mask_filler'') Missing))
      = [ShowWarning ''Warning'' ''Please enter text with [MASK] tokens.'']"
    by code_simp
  have "dialogs (fill_mask_modern (fresh_app (unloaded ''ner'') (unloaded ''mask_filler'') Missing)) \<noteq> dialogs (fill_mask (fresh_app (unloaded ''ner'') (unloaded ''mask_filler'') Missing))"
    unfolding m p by simp
  then have "fill_mask_modern (fresh_app (unloaded ''ner'') (unloaded ''mask_filler'') Missing) \<noteq> fill_mask (fresh_app (unloaded ''ner'') (unloaded ''mask_filler'') Missing)"
    by auto
  with m p show ?thesis
    by simp
qed

text \<open>
  C9, as amended. For every input the handlers for result rendering, classification and
  entity extraction of \<open>modern_nlp_app.py\<close> and \<open>nlp_project.py\<close> produce identical
  results and identical warnings. The mask-filling handlers produce identical results on
  every accepted input (non-empty after trimming and containing \<open>[MASK]\<close>); on a
  rejected input both show exactly one warning and change nothing else, and only the text
  of that warning differs: \<open>modern_nlp_app.py\<close> has one text for both rejections,
  \<open>nlp_project.py\<close> one for the empty input and another for the missing placeholder.
\<close>

theorem files_agree_up_to_mask_warning_text:
  "update_results_modern w c = update_results w c
   \<and> classify_environment_modern self = classify_environment self
   \<and> extract_entities_modern self = extract_entities self
   \<and> (strip (get_all (mask_text_input self)) \<noteq> []
        \<and> py_in ''[MASK]'' (strip (get_all (mask_text_input self))) \<longrightarrow>
      fill_mask_modern self = fill_mask self)
   \<and> (strip (get_all (mask_text_input self)) = [] \<longrightarrow>
      fill_mask_modern self =
        self\<lparr>dialogs := dialogs self
               @ [ShowWarning ''Warning'' ''Please include [MASK] in your text.'']\<rparr>
      \<and> fill_mask self =
        self\<lparr>dialogs := dialogs self
               @ [ShowWarning ''Warning'' ''Please enter text with [MASK] tokens.'']\<rparr>)
   \<and> (strip (get_all (mask_text_input self)) \<noteq> []
        \<and> \<not> py_in ''[MASK]'' (strip (get_all (mask_text_input self))) \<longrightarrow>
      fill_mask_modern self =
        self\<lparr>dialogs := dialogs self
               @ [ShowWarning ''Warning'' ''Please include [MASK] in your text.'']\<rparr>
      \<and> fill_mask self =
        self\<lparr>dialogs := dialogs self
               @ [ShowWarning ''Warning'' ''Please include [MASK] tokens in your text.'']\<rparr>)"
proof -
  have render: "update_results_modern w c = update_results w c"
    by (simp only: update_results_modern_fun)
  have accepted: "fill_mask_modern self = fill_mask self"
    if "strip (get_all (mask_text_input self)) \<noteq> []"
      and "py_in ''[MASK]'' (strip (get_all (mask_text_input self)))"
    using fill_mask_modern_accepted [OF refl that] .
  have empty: "fill_mask_modern self =
        self\<lparr>dialogs := dialogs self
               @ [ShowWarning ''Warning'' ''Please include [MASK] in your text.'']\<rparr>
      \<and> fill_mask self =
        self\<lparr>dialogs := dialogs self
               @ [ShowWarning ''Warning'' ''Please enter text with [MASK] tokens.'']\<rparr>"
    if "strip (get_all (mask_text_input self)) = []"
    using fill_mask_modern_empty [OF that] fill_mask_empty [OF that] by simp
  have missing: "fill_mask_modern self =
        self\<lparr>dialogs := dialogs self
               @ [ShowWarning ''Warning'' ''Please include [MASK] in your text.'']\<rparr>
      \<and> fill_mask self =
        self\<lparr>dialogs := dialogs self
               @ [ShowWarning ''Warning'' ''Please include [MASK] tokens in your text.'']\<rparr>"
    if "strip (get_all (mask_text_input self)) \<noteq> []"
      and "\<not> py_in ''[MASK]'' (strip (get_all (mask_text_input self)))"
    using fill_mask_modern_no_placeholder [OF refl that(2)] fill_mask_no_placeholder [OF refl that]
    by simp
  from render classify_environment_modern_eq [of self] extract_entities_modern_eq [of self]
    accepted empty missing
  show ?thesis by blast
qed

theorem files_agree_up_to_mask_warning_text_witness:
  "strip (get_all (mask_text_input ((fresh_app (answering [])
            (answering [\<lparr>pred_sequence = ''the earth is round.'', pred_score = 1 / 4,
                         token_str = ''round''\<rparr>]) (Assigned None))
           \<lparr>mask_text_input := \<lparr>contents = ''The earth is [MASK].'', wstate = NORMAL\<rparr>\<rparr>))) = ''The earth is [MASK].''
   \<and> py_in ''[MASK]'' ''The earth is [MASK].''
   \<and> fill_mask_modern ((fresh_app (answering [])
            (answering [\<lparr>pred_sequence = ''the earth is round.'', pred_score = 1 / 4,
                         token_str = ''round''\<rparr>]) (Assigned None))
           \<lparr>mask_text_input := \<lparr>contents = ''The earth is [MASK].'', wstate = NORMAL\<rparr>\<rparr>) = fill_mask ((fresh_app (answering [])
            (answering [\<lparr>pred_sequence = ''the earth is round.'', pred_score = 1 / 4,
                         token_str = ''round''\<rparr>]) (Assigned None))
           \<lparr>mask_text_input := \<lparr>contents = ''The earth is [MASK].'', wstate = NORMAL\<rparr>\<rparr>)
   \<and> contents (mask_results (fill_mask_modern ((fresh_app (answering [])
            (answering [\<lparr>pred_sequence = ''the earth is round.'', pred_score = 1 / 4,
                         token_str = ''round''\<rparr>]) (Assigned None))
           \<lparr>mask_text_input := \<lparr>contents = ''The earth is [MASK].'', wstate = NORMAL\<rparr>\<rparr>)))
       = ''Mask Predictions:\<newline>==================================================\<newline>\<newline>1. the earth is round.\<newline>   Confidence: 0.250\<newline>   Token: round\<newline>\<newline>''
   \<and> classify_environment_modern ((fresh_app (answering [])
            (answering [\<lparr>pred_sequence = ''the earth is round.'', pred_score = 1 / 4,
                         token_str = ''round''\<rparr>]) (Assigned None))
           \<lparr>mask_text_input := \<lparr>contents = ''The earth is [MASK].'', wstate = NORMAL\<rparr>\<rparr>) = classify_environment ((fresh_app (answering [])
            (answering [\<lparr>pred_sequence = ''the earth is round.'', pred_score = 1 / 4,
                         token_str = ''round''\<rparr>]) (Assigned None))
           \<lparr>mask_text_input := \<lparr>contents = ''The earth is [MASK].'', wstate = NORMAL\<rparr>\<rparr>)
   \<and> extract_entities_modern ((fresh_app (answering [])
            (answering [\<lparr>pred_sequence = ''the earth is round.'', pred_score = 1 / 4,
                         token_str = ''round''\<rparr>]) (Assigned None))
           \<lparr>mask_text_input := \<lparr>contents = ''The earth is [MASK].'', wstate = NORMAL\<rparr>\<rparr>) = extract_entities ((fresh_app (answering [])
            (answering [\<lparr>pred_sequence = ''the earth is round.'', pred_score = 1 / 4,
                         token_str = ''round''\<rparr>]) (Assigned None))
           \<lparr>mask_text_input := \<lparr>contents = ''The earth is [MASK].'', wstate = NORMAL\<rparr>\<rparr>)"
proof -
  let ?A = "((fresh_app (answering [])
            (answering [\<lparr>pred_sequence = ''the earth is round.'', pred_score = 1 / 4,
                         token_str = ''round''\<rparr>]) (Assigned None))
           \<lparr>mask_text_input := \<lparr>contents = ''The earth is [MASK].'', wstate = NORMAL\<rparr>\<rparr>)"
  have h1: "strip (get_all (mask_text_input ?A)) = ''The earth is [MASK].''"
    by code_simp
  have h2: "py_in ''[MASK]'' ''The earth is [MASK].''"
    by code_simp
  have c: "contents (mask_results (fill_mask ?A))
       = ''Mask Predictions:\<newline>==================================================\<newline>\<newline>1. the earth is round.\<newline>   Confidence: 0.250\<newline>   Token: round\<newline>\<newline>''"
    by code_simp
  note main = files_agree_up_to_mask_warning_text [of _ _ ?A]
  from main h1 h2 have e: "fill_mask_modern ?A = fill_mask ?A"
    by simp
  from main have r: "classify_environment_modern ?A = classify_environment ?A
      \<and> extract_entities_modern ?A = extract_entities ?A"
    by blast
  show ?thesis
    using h1 h2 c r by (simp add: e)
qed

end
